theory Spec2Isabelle
  imports Main "HOL-Library.List_Lexorder" "HOL-Library.Multiset"
begin

section \<open>Strings and values of the Python program\<close>

text \<open>
  A Python \<open>str\<close> is a sequence of Unicode code points, and \<open>sorted\<close> compares two
  strings code point by code point. A string is therefore a list of code points
  (natural numbers), ordered lexicographically. \<open>str\<close> turns an ASCII literal
  into such a string.
\<close>

type_synonym pystr = "nat list"

definition str :: "string \<Rightarrow> pystr" where
  "str s = map of_char s"

text \<open>The three non-ASCII literals of the source: U+2022, U+274C and U+2705.\<close>

definition bullet :: pystr where
  "bullet = [8226]"

definition cross_mark :: pystr where
  "cross_mark = [10060]"

definition check_mark :: pystr where
  "check_mark = [9989]"

text \<open>\<open>str(n)\<close> for a non-negative integer: its decimal digits.\<close>

fun str_of_nat :: "nat \<Rightarrow> pystr" where
  "str_of_nat n = (if n < 10 then [48 + n] else str_of_nat (n div 10) @ [48 + n mod 10])"

declare str_of_nat.simps [simp del]

text \<open>\<open>not comment\<close> for an \<open>Optional[str]\<close>: \<open>None\<close> and the empty string are falsy.\<close>

definition falsy :: "pystr option \<Rightarrow> bool" where
  "falsy c = (case c of None \<Rightarrow> True | Some s \<Rightarrow> s = [])"

text \<open>\<open>s.replace("_", " ")\<close>: every underscore (95) becomes a space (32).\<close>

definition replace_underscore :: "pystr \<Rightarrow> pystr" where
  "replace_underscore s = map (\<lambda>c. if c = 95 then 32 else c) s"

section \<open>Data model\<close>

text \<open>
  The exceptions that can leave a handler of \<open>bot/cogs/filter_lists.py\<close>:
  \<open>BadArgument\<close> with its message, \<open>ResponseCodeError\<close> with its HTTP status, the
  \<open>ValueError\<close> of \<open>list.remove\<close>, and any other exception of a collaborator.
\<close>

datatype error =
    BadArgument pystr
  | ResponseCodeError nat
  | ValueError
  | OtherError pystr

text \<open>
  Modelled from the spec: the List Entry, which the site API returns and
  \<open>bot/bot.py\<close> caches (neither is among the sources). It is
  \<open>{id, allowed, type, content, comment}\<close> with an optional comment; the handlers read
  it with \<open>item.get("id")\<close>, \<open>item.get("content")\<close> and \<open>item.get("comment")\<close>.
\<close>

record item =
  item_id :: nat
  item_allowed :: bool
  item_type :: pystr
  item_content :: pystr
  item_comment :: "pystr option"

text \<open>The JSON body of \<open>POST bot/filter-lists\<close>, built at lines 54 to 59.\<close>

record payload =
  payload_allowed :: bool
  payload_type :: pystr
  payload_content :: pystr
  payload_comment :: "pystr option"

text \<open>
  Modelled from the spec: the result of the Invite Validator
  (\<open>ValidDiscordServerInvite.convert\<close> of \<open>bot/converters.py\<close>, not among the sources):
  \<open>{id, name}\<close>, read with \<open>guild_data.get("id")\<close> and \<open>guild_data.get("name")\<close>.
\<close>

record guild_data =
  guild_id :: pystr
  guild_name :: pystr

datatype colour = Blue

record embed =
  embed_title :: pystr
  embed_colour :: colour
  embed_description :: "pystr option"

text \<open>
  What a handler does to the outside world, in the order it does it: the calls to
  the Remote List Store (\<open>api_client.post\<close> with its JSON body, \<open>api_client.delete\<close> with
  its path) and the outputs to the chat platform (\<open>ctx.message.add_reaction\<close>,
  \<open>LinePaginator.paginate\<close> with its lines, embed, \<open>max_lines\<close> and \<open>empty\<close>, and
  \<open>ctx.send(embed=...)\<close>). The outputs to the chat platform are taken to succeed;
  logging is left out.
\<close>

datatype event =
    ApiPost payload
  | ApiDelete pystr
  | AddReaction pystr
  | Paginate "pystr list" embed nat bool
  | SendEmbed embed

text \<open>
  Modelled from the spec: the Local List Cache (\<open>bot.filter_list_cache\<close>, declared in
  \<open>bot/bot.py\<close>, not among the sources): a mapping from the key
  \<open>"{list_type}.{allowed}"\<close> to an ordered sequence of entries. A key that holds no
  entry maps to the empty sequence. The state of the bot is this cache together with
  the log of the events so far.
\<close>

record bot =
  filter_list_cache :: "pystr \<Rightarrow> item list"
  calls :: "event list"

text \<open>
  The collaborators of the handlers, which are not part of this repository's sources:
  the invite validator, \<open>IDConverter._get_id_match\<close> of the chat library (as a
  truth value), the two endpoints of the site API, and the Unicode case mappings
  \<open>str.lower\<close> and \<open>str.title\<close> of Python. A failing call returns the exception it raises.
\<close>

record env =
  convert :: "pystr \<Rightarrow> error + guild_data"
  get_id_match :: "pystr \<Rightarrow> bool"
  api_post :: "payload \<Rightarrow> error + item"
  api_delete :: "pystr \<Rightarrow> error option"
  str_lower :: "pystr \<Rightarrow> pystr"
  str_title :: "pystr \<Rightarrow> pystr"

definition emit :: "event \<Rightarrow> bot \<Rightarrow> bot" where
  "emit ev st = st\<lparr>calls := calls st @ [ev]\<rparr>"

text \<open>The f-string \<open>"{list_type}.{allowed}"\<close>; a Python \<open>bool\<close> prints as True or False.\<close>

definition cache_key :: "pystr \<Rightarrow> bool \<Rightarrow> pystr" where
  "cache_key list_type allowed =
     list_type @ str ''.'' @ (if allowed then str ''True'' else str ''False'')"

text \<open>
  Modelled from the spec: \<open>bot.insert_item_into_filter_list_cache\<close> (\<open>bot/bot.py\<close>,
  not among the sources) inserts the returned entry into the cache under the key of
  its type and allowed flag, after the entries already there.
\<close>

definition insert_item_into_filter_list_cache :: "item \<Rightarrow> bot \<Rightarrow> bot" where
  "insert_item_into_filter_list_cache it st =
     (let key = cache_key (item_type it) (item_allowed it)
      in st\<lparr>filter_list_cache :=
              (filter_list_cache st)(key := filter_list_cache st key @ [it])\<rparr>)"

section \<open>The list command handler\<close>

definition allow_type :: "bool \<Rightarrow> pystr" where
  "allow_type allowed = (if allowed then str ''whitelist'' else str ''blacklist'')"

text \<open>
  Lines 34 to 59 of \<open>_add_data\<close>: a server invite is validated, its content becomes
  the id of the server and an empty comment becomes the name of the server; then the
  payload is built. A \<open>BadArgument\<close> of the validator leaves the handler.
\<close>

definition build_payload ::
  "env \<Rightarrow> bool \<Rightarrow> pystr \<Rightarrow> pystr \<Rightarrow> pystr option \<Rightarrow> error + payload" where
  "build_payload e allowed list_type content0 comment0 =
     (if list_type = str ''GUILD_INVITE'' then
        (case convert e content0 of
           Inl err \<Rightarrow> Inl err
         | Inr gd \<Rightarrow>
             Inr \<lparr>payload_allowed = allowed, payload_type = list_type,
                  payload_content = guild_id gd,
                  payload_comment =
                    (if falsy comment0 then Some (guild_name gd) else comment0)\<rparr>)
      else
        Inr \<lparr>payload_allowed = allowed, payload_type = list_type,
             payload_content = content0, payload_comment = comment0\<rparr>)"

text \<open>The message of the \<open>BadArgument\<close> raised at lines 73 to 78.\<close>

definition conflict_message :: "bool \<Rightarrow> pystr" where
  "conflict_message allowed =
     str ''Unable to add the item to the '' @ allow_type allowed @ str ''. ''
     @ str ''The item probably already exists. Keep in mind that a ''
     @ str ''blacklist and a whitelist for the same item cannot co-exist, ''
     @ str ''and we do not permit any duplicates.''"

text \<open>
  \<open>_add_data\<close>. Only a \<open>ResponseCodeError\<close> is caught at line 66; with status 400 the
  handler reacts and raises \<open>BadArgument\<close>, with any other status it raises the error
  again. Every other exception of the call passes through.
\<close>

definition add_data ::
  "env \<Rightarrow> bot \<Rightarrow> bool \<Rightarrow> pystr \<Rightarrow> pystr \<Rightarrow> pystr option \<Rightarrow> (error + unit) \<times> bot" where
  "add_data e st allowed list_type content0 comment0 =
     (case build_payload e allowed list_type content0 comment0 of
        Inl err \<Rightarrow> (Inl err, st)
      | Inr p \<Rightarrow>
          (let st1 = emit (ApiPost p) st in
           case api_post e p of
             Inl (ResponseCodeError status) \<Rightarrow>
               (if status = 400
                then (Inl (BadArgument (conflict_message allowed)),
                      emit (AddReaction cross_mark) st1)
                else (Inl (ResponseCodeError status), st1))
           | Inl err \<Rightarrow> (Inl err, st1)
           | Inr it \<Rightarrow>
               (Inr (), emit (AddReaction check_mark)
                          (insert_item_into_filter_list_cache it st1))))"

text \<open>
  Lines 91 to 100 of \<open>_delete_data\<close>: the content of a server invite that is not
  already an id is resolved to the id of the server.
\<close>

definition resolve_content :: "env \<Rightarrow> pystr \<Rightarrow> pystr \<Rightarrow> error + pystr" where
  "resolve_content e list_type content0 =
     (if list_type = str ''GUILD_INVITE'' \<and> \<not> get_id_match e content0 then
        (case convert e content0 of
           Inl err \<Rightarrow> Inl err
         | Inr gd \<Rightarrow> Inr (guild_id gd))
      else Inr content0)"

text \<open>The loop of lines 104 to 107: the first entry with this content, if any.\<close>

fun find_item :: "pystr \<Rightarrow> item list \<Rightarrow> item option" where
  "find_item content0 [] = None"
| "find_item content0 (allow_list # rest) =
     (if content0 = item_content allow_list then Some allow_list
      else find_item content0 rest)"

text \<open>
  \<open>list.remove(x)\<close> deletes the first element equal to \<open>x\<close> and raises \<open>ValueError\<close>
  when there is none.
\<close>

definition list_remove :: "item \<Rightarrow> item list \<Rightarrow> error + item list" where
  "list_remove x xs = (if x \<in> set xs then Inr (remove1 x xs) else Inl ValueError)"

text \<open>The path \<open>"bot/filter-lists/{item.get('id')}"\<close> of line 111.\<close>

definition delete_path :: "item \<Rightarrow> pystr" where
  "delete_path it = str ''bot/filter-lists/'' @ str_of_nat (item_id it)"

definition delete_data ::
  "env \<Rightarrow> bot \<Rightarrow> bool \<Rightarrow> pystr \<Rightarrow> pystr \<Rightarrow> (error + unit) \<times> bot" where
  "delete_data e st allowed list_type content0 =
     (case resolve_content e list_type content0 of
        Inl err \<Rightarrow> (Inl err, st)
      | Inr c \<Rightarrow>
          (let key = cache_key list_type allowed in
           case find_item c (filter_list_cache st key) of
             None \<Rightarrow> (Inr (), st)
           | Some it \<Rightarrow>
               (let st1 = emit (ApiDelete (delete_path it)) st in
                case api_delete e (delete_path it) of
                  Some err \<Rightarrow> (Inl err, st1)
                | None \<Rightarrow>
                    (case list_remove it (filter_list_cache st1 key) of
                       Inl err \<Rightarrow> (Inl err, st1)
                     | Inr xs \<Rightarrow>
                         (Inr (), emit (AddReaction check_mark)
                            (st1\<lparr>filter_list_cache :=
                                   (filter_list_cache st1)(key := xs)\<rparr>))))))"

text \<open>The line of one entry, lines 124 to 127.\<close>

definition render_line :: "item \<Rightarrow> pystr" where
  "render_line it =
     bullet @ str '' `'' @ item_content it @ str ''`''
     @ (case item_comment it of
          None \<Rightarrow> []
        | Some s \<Rightarrow> if s = [] then [] else str '' - '' @ s)"

definition placeholder :: pystr where
  "placeholder = str ''Hmmm, seems like there'' @ [39] @ str ''s nothing here yet.''"

definition list_title :: "env \<Rightarrow> bool \<Rightarrow> pystr \<Rightarrow> nat \<Rightarrow> pystr" where
  "list_title e allowed list_type n =
     (let list_type_plural =
            str_title e (replace_underscore (str_lower e list_type)) @ str ''s''
      in str_title e (allow_type allowed) @ str ''ed '' @ list_type_plural
         @ str '' ('' @ str_of_nat n @ str '' total)'')"

definition list_all_data :: "env \<Rightarrow> bot \<Rightarrow> bool \<Rightarrow> pystr \<Rightarrow> (error + unit) \<times> bot" where
  "list_all_data e st allowed list_type =
     (let result = filter_list_cache st (cache_key list_type allowed);
          lines = sort (map render_line result);
          em = \<lparr>embed_title = list_title e allowed list_type (length result),
                embed_colour = Blue, embed_description = None\<rparr>
      in if result \<noteq> []
         then (Inr (), emit (Paginate lines em 15 False) st)
         else (Inr (), emit (SendEmbed (em\<lparr>embed_description := Some placeholder\<rparr>)) st))"

section \<open>The command error dispatcher\<close>

text \<open>
  Modelled from the spec: \<open>ErrorHandler.on_command_error\<close> of
  \<open>bot/cogs/error_handler.py\<close>, of which only the tests are among the sources. The
  dispatcher receives one error per command invocation. What it reads is the class
  of the error, the \<open>handled\<close> marker (absent, or the value a local handler stored),
  the \<open>invoked_from_error_handler\<close> marker and the id of the originating channel.
\<close>

datatype command_error_class =
    CommandNotFound
  | UserInputError
  | CheckFailure
  | CommandOnCooldown
  | OtherCommandError

record invocation =
  error_class :: command_error_class
  handled :: "pystr option"
  invoked_from_error_handler :: bool
  channel_id :: nat

text \<open>
  Modelled from the spec: what the dispatcher can do, namely await \<open>try_silence\<close>,
  await \<open>try_get_tag\<close>, delegate to \<open>handle_user_input_error\<close> or
  \<open>handle_check_failure\<close>, send the error to the invoking context, or hand the error
  to the generic handler.
\<close>

datatype action =
    TrySilence
  | TryGetTag
  | HandleUserInputError
  | HandleCheckFailure
  | SendError
  | HandleGeneric

text \<open>
  Modelled from the spec: the surroundings of the dispatcher, namely what the
  channel-silence recovery action returns, and the id of the verification channel
  (\<open>Channels.verification\<close>).
\<close>

record dispatcher_env =
  try_silence :: bool
  verification :: nat

text \<open>
  Modelled from the spec: the decision table of section 4.2, terminal on the first
  match. The result is the list of actions taken, in order.
\<close>

definition on_command_error :: "dispatcher_env \<Rightarrow> invocation \<Rightarrow> action list" where
  "on_command_error d cmd =
     (if \<not> falsy (handled cmd) then []
      else case error_class cmd of
        CommandNotFound \<Rightarrow>
          (if invoked_from_error_handler cmd then []
           else if try_silence d then [TrySilence]
           else if channel_id cmd = verification d then [TrySilence]
           else [TrySilence, TryGetTag])
      | UserInputError \<Rightarrow> [HandleUserInputError]
      | CheckFailure \<Rightarrow> [HandleCheckFailure]
      | CommandOnCooldown \<Rightarrow> [SendError]
      | OtherCommandError \<Rightarrow> [HandleGeneric])"

section \<open>Sample data\<close>

text \<open>
  A cache with three entries under one key, two of them with the same content, a
  server invite that resolves, and collaborators that answer as the site and the
  chat library do on ASCII input.
\<close>

definition entry_ads :: item where
  "entry_ads = \<lparr>item_id = 3, item_allowed = False, item_type = str ''DOMAIN_NAME'',
                 item_content = str ''ads.example'', item_comment = Some []\<rparr>"

definition entry_spam :: item where
  "entry_spam = \<lparr>item_id = 7, item_allowed = False, item_type = str ''DOMAIN_NAME'',
                  item_content = str ''spam.example'', item_comment = Some (str ''junk'')\<rparr>"

definition entry_spam_again :: item where
  "entry_spam_again = \<lparr>item_id = 12, item_allowed = False, item_type = str ''DOMAIN_NAME'',
                        item_content = str ''spam.example'', item_comment = None\<rparr>"

definition sample_bot :: bot where
  "sample_bot =
     \<lparr>filter_list_cache =
        (\<lambda>k. if k = str ''DOMAIN_NAME.False''
             then [entry_spam, entry_ads, entry_spam_again] else []),
      calls = []\<rparr>"

definition sample_payload :: payload where
  "sample_payload = \<lparr>payload_allowed = False, payload_type = str ''DOMAIN_NAME'',
                      payload_content = str ''spam.example'', payload_comment = None\<rparr>"

definition python_guild :: guild_data where
  "python_guild = \<lparr>guild_id = str ''267624335836053506'', guild_name = str ''Python Discord''\<rparr>"

definition ascii_lower :: "pystr \<Rightarrow> pystr" where
  "ascii_lower s = map (\<lambda>c. if 65 \<le> c \<and> c \<le> 90 then c + 32 else c) s"

fun ascii_title :: "bool \<Rightarrow> pystr \<Rightarrow> pystr" where
  "ascii_title in_word [] = []"
| "ascii_title in_word (c # cs) =
     (if 97 \<le> c \<and> c \<le> 122 then (if in_word then c else c - 32) # ascii_title True cs
      else if 65 \<le> c \<and> c \<le> 90 then (if in_word then c + 32 else c) # ascii_title True cs
      else c # ascii_title False cs)"

definition sample_env :: env where
  "sample_env =
     \<lparr>convert =
        (\<lambda>s. if s = str ''discord.gg/python'' then Inr python_guild
             else Inl (BadArgument (str ''This does not appear to be a valid Discord server invite.''))),
      get_id_match = (\<lambda>s. s = str ''267624335836053506''),
      api_post = (\<lambda>p. Inl (ResponseCodeError 400)),
      api_delete = (\<lambda>p. None),
      str_lower = ascii_lower,
      str_title = ascii_title False\<rparr>"

definition failing_env :: env where
  "failing_env = sample_env\<lparr>api_delete := (\<lambda>p. Some (ResponseCodeError 500))\<rparr>"

definition sample_dispatcher_env :: dispatcher_env where
  "sample_dispatcher_env = \<lparr>try_silence = False, verification = 1234\<rparr>"

definition not_found :: invocation where
  "not_found = \<lparr>error_class = CommandNotFound, handled = None,
                 invoked_from_error_handler = False, channel_id = 99\<rparr>"

section \<open>Auxiliary facts\<close>

lemma find_item_None: "find_item c xs = None \<longleftrightarrow> (\<forall>x \<in> set xs. item_content x \<noteq> c)"
  by (induction xs) auto

lemma find_item_Some_mem: "find_item c xs = Some it \<Longrightarrow> it \<in> set xs \<and> item_content it = c"
  by (induction xs) (auto split: if_splits)

lemma find_item_split:
  "find_item c xs = Some it \<Longrightarrow>
     \<exists>pre post. xs = pre @ it # post \<and> (\<forall>x \<in> set pre. item_content x \<noteq> c)"
proof (induction xs)
  case Nil
  then show ?case by simp
next
  case (Cons a xs)
  show ?case
  proof (cases "c = item_content a")
    case True
    with Cons.prems have "a = it" by simp
    then have "a # xs = [] @ it # xs \<and> (\<forall>x \<in> set []. item_content x \<noteq> c)" by simp
    then show ?thesis by blast
  next
    case False
    with Cons.prems have "find_item c xs = Some it" by simp
    from Cons.IH [OF this] obtain pre post
      where "xs = pre @ it # post" and "\<forall>x \<in> set pre. item_content x \<noteq> c" by blast
    with False have "a # xs = (a # pre) @ it # post \<and> (\<forall>x \<in> set (a # pre). item_content x \<noteq> c)"
      by auto
    then show ?thesis by blast
  qed
qed

lemma remove1_first_match:
  assumes "\<forall>x \<in> set pre. item_content x \<noteq> item_content it"
  shows "remove1 it (pre @ it # post) = pre @ post"
proof -
  from assms have "it \<notin> set pre" by auto
  then show ?thesis by (simp add: remove1_append)
qed

text \<open>The sample data, evaluated.\<close>

lemma sample_cache:
  "filter_list_cache sample_bot (cache_key (str ''DOMAIN_NAME'') False)
     = [entry_spam, entry_ads, entry_spam_again]"
  by (simp add: sample_bot_def cache_key_def str_def)

lemma sample_cache_empty:
  "filter_list_cache sample_bot (cache_key (str ''DOMAIN_NAME'') True) = []"
  by (simp add: sample_bot_def cache_key_def str_def)

lemma sample_calls: "calls sample_bot = []"
  by (simp add: sample_bot_def)

lemma sample_resolve:
  "resolve_content e (str ''DOMAIN_NAME'') c = Inr c"
  by (simp add: resolve_content_def str_def)

lemma sample_find_spam:
  "find_item (str ''spam.example'') [entry_spam, entry_ads, entry_spam_again] = Some entry_spam"
  by (simp add: entry_spam_def)

lemma sample_find_ads:
  "find_item (str ''ads.example'') [entry_spam, entry_ads, entry_spam_again] = Some entry_ads"
  by (simp add: entry_spam_def entry_ads_def str_def)

section \<open>Properties of the list command handler\<close>

text \<open>
  C1. When the payload has been built and the create call of the store fails with
  status 400, \<open>_add_data\<close> raises \<open>BadArgument\<close> with the conflict message, the only
  events are the one create call (no second attempt) and the cross mark reaction,
  and the cache is what it was. The message says that the item probably already
  exists and that a blacklist and a whitelist for the same item cannot co-exist.
\<close>

theorem add_data_conflict:
  assumes "build_payload e allowed list_type content0 comment0 = Inr p"
    and "api_post e p = Inl (ResponseCodeError 400)"
  shows "add_data e st allowed list_type content0 comment0 =
           (Inl (BadArgument (conflict_message allowed)),
            st\<lparr>calls := calls st @ [ApiPost p, AddReaction cross_mark]\<rparr>)
         \<and> (\<exists>pre mid post. conflict_message allowed =
               pre @ str ''The item probably already exists'' @ mid
               @ str ''a blacklist and a whitelist for the same item cannot co-exist'' @ post)"
proof
  show "add_data e st allowed list_type content0 comment0 =
           (Inl (BadArgument (conflict_message allowed)),
            st\<lparr>calls := calls st @ [ApiPost p, AddReaction cross_mark]\<rparr>)"
    using assms by (simp add: add_data_def emit_def)
next
  have "conflict_message allowed =
          (str ''Unable to add the item to the '' @ allow_type allowed @ str ''. '')
          @ str ''The item probably already exists'' @ str ''. Keep in mind that ''
          @ str ''a blacklist and a whitelist for the same item cannot co-exist''
          @ str '', and we do not permit any duplicates.''"
    by (simp add: conflict_message_def str_def)
  then show "\<exists>pre mid post. conflict_message allowed =
               pre @ str ''The item probably already exists'' @ mid
               @ str ''a blacklist and a whitelist for the same item cannot co-exist'' @ post"
    by blast
qed

theorem add_data_conflict_witness:
  "build_payload sample_env False (str ''DOMAIN_NAME'') (str ''spam.example'') None
     = Inr sample_payload
   \<and> api_post sample_env sample_payload = Inl (ResponseCodeError 400)
   \<and> add_data sample_env sample_bot False (str ''DOMAIN_NAME'') (str ''spam.example'') None
     = (Inl (BadArgument (conflict_message False)),
        sample_bot\<lparr>calls := [ApiPost sample_payload, AddReaction cross_mark]\<rparr>)"
proof -
  have h1: "build_payload sample_env False (str ''DOMAIN_NAME'') (str ''spam.example'') None
              = Inr sample_payload"
    by (simp add: build_payload_def sample_payload_def str_def)
  have h2: "api_post sample_env sample_payload = Inl (ResponseCodeError 400)"
    by (simp add: sample_env_def)
  from add_data_conflict [OF h1 h2, of sample_bot] h1 h2 show ?thesis
    by (simp add: sample_calls)
qed

text \<open>
  C2. For a server invite that the validator resolves, the payload sent to the
  create endpoint carries the id of the server as its content, and as its comment
  the name of the server when the supplied comment is empty (\<open>None\<close> or the empty
  string), the supplied comment otherwise. This payload is the first thing the
  handler sends, whatever the store answers.
\<close>

theorem add_data_invite_payload:
  assumes "list_type = str ''GUILD_INVITE''"
    and "convert e content0 = Inr gd"
  shows "\<exists>p rest.
           build_payload e allowed list_type content0 comment0 = Inr p
           \<and> calls (snd (add_data e st allowed list_type content0 comment0))
               = calls st @ ApiPost p # rest
           \<and> payload_content p = guild_id gd
           \<and> payload_comment p =
               (if falsy comment0 then Some (guild_name gd) else comment0)
           \<and> payload_type p = list_type \<and> payload_allowed p = allowed"
proof -
  define p where "p = \<lparr>payload_allowed = allowed, payload_type = list_type,
                       payload_content = guild_id gd,
                       payload_comment =
                         (if falsy comment0 then Some (guild_name gd) else comment0)\<rparr>"
  have bp: "build_payload e allowed list_type content0 comment0 = Inr p"
    using assms by (simp add: build_payload_def p_def)
  have "\<exists>rest. calls (snd (add_data e st allowed list_type content0 comment0))
               = calls st @ ApiPost p # rest"
    by (simp add: add_data_def bp emit_def insert_item_into_filter_list_cache_def Let_def
             split: sum.splits error.splits)
  with bp show ?thesis by (auto simp: p_def)
qed

theorem add_data_invite_payload_witness:
  "convert sample_env (str ''discord.gg/python'') = Inr python_guild
   \<and> (\<exists>p rest.
        build_payload sample_env True (str ''GUILD_INVITE'') (str ''discord.gg/python'') None
          = Inr p
        \<and> calls (snd (add_data sample_env sample_bot True (str ''GUILD_INVITE'')
                        (str ''discord.gg/python'') None))
            = ApiPost p # rest
        \<and> payload_content p = str ''267624335836053506''
        \<and> payload_comment p = Some (str ''Python Discord''))
   \<and> (\<exists>p rest.
        build_payload sample_env True (str ''GUILD_INVITE'') (str ''discord.gg/python'')
            (Some (str ''partner'')) = Inr p
        \<and> calls (snd (add_data sample_env sample_bot True (str ''GUILD_INVITE'')
                        (str ''discord.gg/python'') (Some (str ''partner''))))
            = ApiPost p # rest
        \<and> payload_content p = str ''267624335836053506''
        \<and> payload_comment p = Some (str ''partner''))"
proof -
  have h: "convert sample_env (str ''discord.gg/python'') = Inr python_guild"
    by (simp add: sample_env_def)
  have f: "\<not> falsy (Some (str ''partner''))"
    by (simp add: falsy_def str_def)
  from add_data_invite_payload [OF refl h, of True None sample_bot]
  have a: "\<exists>p rest.
        build_payload sample_env True (str ''GUILD_INVITE'') (str ''discord.gg/python'') None
          = Inr p
        \<and> calls (snd (add_data sample_env sample_bot True (str ''GUILD_INVITE'')
                        (str ''discord.gg/python'') None))
            = ApiPost p # rest
        \<and> payload_content p = str ''267624335836053506''
        \<and> payload_comment p = Some (str ''Python Discord'')"
    by (auto simp: sample_calls python_guild_def falsy_def)
  from add_data_invite_payload [OF refl h, of True "Some (str ''partner'')" sample_bot] f
  have b: "\<exists>p rest.
        build_payload sample_env True (str ''GUILD_INVITE'') (str ''discord.gg/python'')
            (Some (str ''partner'')) = Inr p
        \<and> calls (snd (add_data sample_env sample_bot True (str ''GUILD_INVITE'')
                        (str ''discord.gg/python'') (Some (str ''partner''))))
            = ApiPost p # rest
        \<and> payload_content p = str ''267624335836053506''
        \<and> payload_comment p = Some (str ''partner'')"
    by (auto simp: sample_calls python_guild_def)
  from h a b show ?thesis by blast
qed

text \<open>
  C3. When no entry cached under the key has the (possibly resolved) content,
  \<open>_delete_data\<close> returns normally and the state of the bot is what it was: the cache is
  unchanged and no event is logged, so there is no delete call and no reaction.
\<close>

theorem delete_data_absent:
  assumes "resolve_content e list_type content0 = Inr c"
    and "\<forall>x \<in> set (filter_list_cache st (cache_key list_type allowed)). item_content x \<noteq> c"
  shows "delete_data e st allowed list_type content0 = (Inr (), st)"
proof -
  from assms(2) have "find_item c (filter_list_cache st (cache_key list_type allowed)) = None"
    by (simp add: find_item_None)
  with assms(1) show ?thesis by (simp add: delete_data_def)
qed

theorem delete_data_absent_witness:
  "resolve_content sample_env (str ''DOMAIN_NAME'') (str ''nothing.example'')
     = Inr (str ''nothing.example'')
   \<and> str ''nothing.example''
       \<notin> set (map item_content
                  (filter_list_cache sample_bot (cache_key (str ''DOMAIN_NAME'') False)))
   \<and> delete_data sample_env sample_bot False (str ''DOMAIN_NAME'') (str ''nothing.example'')
     = (Inr (), sample_bot)"
proof -
  have h1: "resolve_content sample_env (str ''DOMAIN_NAME'') (str ''nothing.example'')
              = Inr (str ''nothing.example'')"
    by (rule sample_resolve)
  have h2: "\<forall>x \<in> set (filter_list_cache sample_bot (cache_key (str ''DOMAIN_NAME'') False)).
              item_content x \<noteq> str ''nothing.example''"
    unfolding sample_cache by (simp add: entry_spam_def entry_ads_def entry_spam_again_def str_def)
  from h2 have h2': "str ''nothing.example''
       \<notin> set (map item_content
                  (filter_list_cache sample_bot (cache_key (str ''DOMAIN_NAME'') False)))"
    by auto
  from delete_data_absent [OF h1 h2] h1 h2' show ?thesis by blast
qed

text \<open>
  C4. When an entry with the content is found and the delete call of the store
  succeeds, \<open>_delete_data\<close> returns normally; the events are exactly one delete call,
  with the path of the found entry, followed by the check mark reaction; the cache
  under the key loses exactly that one entry, and every other key is untouched.
\<close>

theorem delete_data_present:
  assumes "resolve_content e list_type content0 = Inr c"
    and "find_item c (filter_list_cache st (cache_key list_type allowed)) = Some it"
    and "api_delete e (delete_path it) = None"
  shows "\<exists>xs. delete_data e st allowed list_type content0 =
           (Inr (),
            st\<lparr>filter_list_cache := (filter_list_cache st)(cache_key list_type allowed := xs),
               calls := calls st @ [ApiDelete (delete_path it), AddReaction check_mark]\<rparr>)
         \<and> mset (filter_list_cache st (cache_key list_type allowed)) = add_mset it (mset xs)
         \<and> Suc (length xs) = length (filter_list_cache st (cache_key list_type allowed))"
proof -
  let ?old = "filter_list_cache st (cache_key list_type allowed)"
  from assms(2) have mem: "it \<in> set ?old" by (simp add: find_item_Some_mem)
  have run: "delete_data e st allowed list_type content0 =
           (Inr (),
            st\<lparr>filter_list_cache := (filter_list_cache st)(cache_key list_type allowed := remove1 it ?old),
               calls := calls st @ [ApiDelete (delete_path it), AddReaction check_mark]\<rparr>)"
    using assms mem by (simp add: delete_data_def emit_def list_remove_def Let_def)
  from mem have m: "mset ?old = add_mset it (mset (remove1 it ?old))" by simp
  from mem have l: "Suc (length (remove1 it ?old)) = length ?old"
    by (simp add: length_remove1) (metis Suc_pred length_pos_if_in_set)
  from run m l show ?thesis by blast
qed

theorem delete_data_present_witness:
  "find_item (str ''ads.example'')
      (filter_list_cache sample_bot (cache_key (str ''DOMAIN_NAME'') False)) = Some entry_ads
   \<and> api_delete sample_env (delete_path entry_ads) = None
   \<and> (\<exists>xs. delete_data sample_env sample_bot False (str ''DOMAIN_NAME'') (str ''ads.example'')
         = (Inr (),
            sample_bot\<lparr>filter_list_cache :=
                         (filter_list_cache sample_bot)
                           (cache_key (str ''DOMAIN_NAME'') False := xs),
                       calls := [ApiDelete (str ''bot/filter-lists/3''),
                                 AddReaction check_mark]\<rparr>)
       \<and> mset [entry_spam, entry_ads, entry_spam_again] = add_mset entry_ads (mset xs)
       \<and> Suc (length xs) = length [entry_spam, entry_ads, entry_spam_again])"
proof -
  have h1: "resolve_content sample_env (str ''DOMAIN_NAME'') (str ''ads.example'')
              = Inr (str ''ads.example'')"
    by (rule sample_resolve)
  have h2: "find_item (str ''ads.example'')
              (filter_list_cache sample_bot (cache_key (str ''DOMAIN_NAME'') False))
              = Some entry_ads"
    unfolding sample_cache by (rule sample_find_ads)
  have h3: "api_delete sample_env (delete_path entry_ads) = None"
    by (simp add: sample_env_def)
  have p: "delete_path entry_ads = str ''bot/filter-lists/3''"
    by (simp add: delete_path_def entry_ads_def str_of_nat.simps str_def)
  from delete_data_present [OF h1 h2 h3]
  have r: "\<exists>xs. delete_data sample_env sample_bot False (str ''DOMAIN_NAME'') (str ''ads.example'')
         = (Inr (),
            sample_bot\<lparr>filter_list_cache :=
                         (filter_list_cache sample_bot)
                           (cache_key (str ''DOMAIN_NAME'') False := xs),
                       calls := [ApiDelete (str ''bot/filter-lists/3''),
                                 AddReaction check_mark]\<rparr>)
       \<and> mset [entry_spam, entry_ads, entry_spam_again] = add_mset entry_ads (mset xs)
       \<and> Suc (length xs) = length [entry_spam, entry_ads, entry_spam_again]"
    unfolding sample_cache sample_calls p append_Nil .
  from h2 h3 r show ?thesis by blast
qed

text \<open>
  C9. When two or more entries cached under the key have the content and the delete
  call succeeds, the entry whose path is sent to the store and which leaves the cache
  is the first of them in cache order: the cached sequence is \<open>pre @ it # post\<close> with no
  match in \<open>pre\<close>, it becomes \<open>pre @ post\<close>, and all later matches are still there.
\<close>

theorem delete_data_first_match:
  assumes "resolve_content e list_type content0 = Inr c"
    and "find_item c (filter_list_cache st (cache_key list_type allowed)) = Some it"
    and "2 \<le> length (filter (\<lambda>x. item_content x = c)
                        (filter_list_cache st (cache_key list_type allowed)))"
    and "api_delete e (delete_path it) = None"
  shows "\<exists>pre post.
           filter_list_cache st (cache_key list_type allowed) = pre @ it # post
           \<and> (\<forall>x \<in> set pre. item_content x \<noteq> c)
           \<and> item_content it = c
           \<and> (\<exists>x \<in> set post. item_content x = c)
           \<and> delete_data e st allowed list_type content0 =
               (Inr (),
                st\<lparr>filter_list_cache :=
                     (filter_list_cache st)(cache_key list_type allowed := pre @ post),
                   calls := calls st @ [ApiDelete (delete_path it), AddReaction check_mark]\<rparr>)
           \<and> filter (\<lambda>x. item_content x = c) (pre @ post)
               = tl (filter (\<lambda>x. item_content x = c)
                       (filter_list_cache st (cache_key list_type allowed)))"
proof -
  let ?old = "filter_list_cache st (cache_key list_type allowed)"
  let ?P = "\<lambda>x. item_content x = c"
  from find_item_split [OF assms(2)] obtain pre post
    where split: "?old = pre @ it # post" and pre: "\<forall>x \<in> set pre. item_content x \<noteq> c"
    by blast
  from assms(2) have c: "item_content it = c" and mem: "it \<in> set ?old"
    by (simp_all add: find_item_Some_mem)
  from pre have fpre: "filter ?P pre = []" by (simp add: filter_empty_conv)
  from split fpre c have f: "filter ?P ?old = it # filter ?P post" by simp
  with assms(3) have "filter ?P post \<noteq> []" by auto
  then have later: "\<exists>x \<in> set post. item_content x = c"
    by (simp add: filter_empty_conv)
  from pre c have "remove1 it (pre @ it # post) = pre @ post"
    by (intro remove1_first_match) simp
  with split have rm: "remove1 it ?old = pre @ post" by simp
  have run: "delete_data e st allowed list_type content0 =
               (Inr (),
                st\<lparr>filter_list_cache :=
                     (filter_list_cache st)(cache_key list_type allowed := pre @ post),
                   calls := calls st @ [ApiDelete (delete_path it), AddReaction check_mark]\<rparr>)"
    using assms(1,2,4) mem rm by (simp add: delete_data_def emit_def list_remove_def Let_def)
  from fpre f have tl: "filter ?P (pre @ post) = tl (filter ?P ?old)" by simp
  from split pre c later run tl show ?thesis by blast
qed

theorem delete_data_first_match_witness:
  "find_item (str ''spam.example'')
      (filter_list_cache sample_bot (cache_key (str ''DOMAIN_NAME'') False)) = Some entry_spam
   \<and> 2 \<le> length (filter (\<lambda>x. item_content x = str ''spam.example'')
                    (filter_list_cache sample_bot (cache_key (str ''DOMAIN_NAME'') False)))
   \<and> api_delete sample_env (delete_path entry_spam) = None
   \<and> filter_list_cache sample_bot (cache_key (str ''DOMAIN_NAME'') False)
       = [entry_spam, entry_ads, entry_spam_again]
   \<and> delete_data sample_env sample_bot False (str ''DOMAIN_NAME'') (str ''spam.example'')
       = (Inr (),
          sample_bot\<lparr>filter_list_cache :=
                       (filter_list_cache sample_bot)
                         (cache_key (str ''DOMAIN_NAME'') False := [entry_ads, entry_spam_again]),
                     calls := [ApiDelete (str ''bot/filter-lists/7''),
                               AddReaction check_mark]\<rparr>)"
proof -
  have h1: "resolve_content sample_env (str ''DOMAIN_NAME'') (str ''spam.example'')
              = Inr (str ''spam.example'')"
    by (rule sample_resolve)
  have h2: "find_item (str ''spam.example'')
              (filter_list_cache sample_bot (cache_key (str ''DOMAIN_NAME'') False))
              = Some entry_spam"
    unfolding sample_cache by (rule sample_find_spam)
  have h3: "2 \<le> length (filter (\<lambda>x. item_content x = str ''spam.example'')
              (filter_list_cache sample_bot (cache_key (str ''DOMAIN_NAME'') False)))"
    unfolding sample_cache by (simp add: entry_spam_def entry_ads_def entry_spam_again_def str_def)
  have h4: "api_delete sample_env (delete_path entry_spam) = None"
    by (simp add: sample_env_def)
  have p: "delete_path entry_spam = str ''bot/filter-lists/7''"
    by (simp add: delete_path_def entry_spam_def str_of_nat.simps str_def)
  have c: "item_content entry_spam = str ''spam.example''"
    by (simp add: entry_spam_def)
  from delete_data_first_match [OF h1 h2 h3 h4] obtain pre post where
    split: "[entry_spam, entry_ads, entry_spam_again] = pre @ entry_spam # post"
    and pre: "\<forall>x \<in> set pre. item_content x \<noteq> str ''spam.example''"
    and run: "delete_data sample_env sample_bot False (str ''DOMAIN_NAME'') (str ''spam.example'')
       = (Inr (),
          sample_bot\<lparr>filter_list_cache :=
                       (filter_list_cache sample_bot)
                         (cache_key (str ''DOMAIN_NAME'') False := pre @ post),
                     calls := [ApiDelete (str ''bot/filter-lists/7''),
                               AddReaction check_mark]\<rparr>)"
    unfolding sample_cache sample_calls p append_Nil by blast
  have "pre = []"
  proof (cases pre)
    case Nil
    then show ?thesis .
  next
    case (Cons a as)
    with split have "a = entry_spam" by simp
    with Cons pre c show ?thesis by simp
  qed
  with split have "pre @ post = [entry_ads, entry_spam_again]" by simp
  with run have r: "delete_data sample_env sample_bot False (str ''DOMAIN_NAME'') (str ''spam.example'')
       = (Inr (),
          sample_bot\<lparr>filter_list_cache :=
                       (filter_list_cache sample_bot)
                         (cache_key (str ''DOMAIN_NAME'') False := [entry_ads, entry_spam_again]),
                     calls := [ApiDelete (str ''bot/filter-lists/7''),
                               AddReaction check_mark]\<rparr>)"
    by simp
  from h2 h3 h4 sample_cache r show ?thesis by blast
qed

text \<open>
  C10. When a matching entry is found and the delete call of the store raises, the
  error leaves the handler, the cache is what it was and the only event is the
  delete call itself: no reaction is added.
\<close>

theorem delete_data_store_error:
  assumes "resolve_content e list_type content0 = Inr c"
    and "find_item c (filter_list_cache st (cache_key list_type allowed)) = Some it"
    and "api_delete e (delete_path it) = Some err"
  shows "delete_data e st allowed list_type content0 =
           (Inl err, st\<lparr>calls := calls st @ [ApiDelete (delete_path it)]\<rparr>)"
  using assms by (simp add: delete_data_def emit_def)

theorem delete_data_store_error_witness:
  "find_item (str ''spam.example'')
      (filter_list_cache sample_bot (cache_key (str ''DOMAIN_NAME'') False)) = Some entry_spam
   \<and> api_delete failing_env (delete_path entry_spam) = Some (ResponseCodeError 500)
   \<and> delete_data failing_env sample_bot False (str ''DOMAIN_NAME'') (str ''spam.example'')
     = (Inl (ResponseCodeError 500),
        sample_bot\<lparr>calls := [ApiDelete (str ''bot/filter-lists/7'')]\<rparr>)"
proof -
  have h1: "resolve_content failing_env (str ''DOMAIN_NAME'') (str ''spam.example'')
              = Inr (str ''spam.example'')"
    by (rule sample_resolve)
  have h2: "find_item (str ''spam.example'')
              (filter_list_cache sample_bot (cache_key (str ''DOMAIN_NAME'') False))
              = Some entry_spam"
    unfolding sample_cache by (rule sample_find_spam)
  have h3: "api_delete failing_env (delete_path entry_spam) = Some (ResponseCodeError 500)"
    by (simp add: failing_env_def)
  have p: "delete_path entry_spam = str ''bot/filter-lists/7''"
    by (simp add: delete_path_def entry_spam_def str_of_nat.simps str_def)
  from delete_data_store_error [OF h1 h2 h3] h2 h3 show ?thesis
    by (simp add: sample_calls p)
qed

text \<open>
  C5. \<open>_list_all_data\<close> returns normally and leaves the cache as it was. When the
  cached sequence is not empty, the one event is a call of the paginator with
  \<open>max_lines\<close> 15. Its lines are in ascending lexicographic order and are, one per
  cached entry, the bullet, the content between backticks and, when the comment is
  present (neither \<open>None\<close> nor empty), \<open>" - "\<close> and the comment. When the cached sequence
  is empty, the one event is a send of the embed whose description is the fixed
  placeholder text, and nothing is paginated.
\<close>

theorem list_all_data_sorted:
  "fst (list_all_data e st allowed list_type) = Inr ()
   \<and> filter_list_cache (snd (list_all_data e st allowed list_type)) = filter_list_cache st
   \<and> (filter_list_cache st (cache_key list_type allowed) \<noteq> [] \<longrightarrow>
        (\<exists>lines em.
           calls (snd (list_all_data e st allowed list_type))
             = calls st @ [Paginate lines em 15 False]
           \<and> sorted lines
           \<and> length lines = length (filter_list_cache st (cache_key list_type allowed))
           \<and> mset lines =
               mset (map (\<lambda>it. bullet @ str '' `'' @ item_content it @ str ''`''
                                @ (case item_comment it of
                                     None \<Rightarrow> []
                                   | Some s \<Rightarrow> if s = [] then [] else str '' - '' @ s))
                         (filter_list_cache st (cache_key list_type allowed)))))
   \<and> (filter_list_cache st (cache_key list_type allowed) = [] \<longrightarrow>
        (\<exists>em. calls (snd (list_all_data e st allowed list_type)) = calls st @ [SendEmbed em]
           \<and> embed_description em
               = Some (str ''Hmmm, seems like there'' @ [39] @ str ''s nothing here yet.'')))"
proof -
  have r: "render_line =
             (\<lambda>it. bullet @ str '' `'' @ item_content it @ str ''`''
                    @ (case item_comment it of
                         None \<Rightarrow> []
                       | Some s \<Rightarrow> if s = [] then [] else str '' - '' @ s))"
    by (rule ext) (simp add: render_line_def)
  show ?thesis
    unfolding r [symmetric]
    by (simp add: list_all_data_def emit_def Let_def placeholder_def)
qed

theorem list_all_data_sorted_witness:
  "filter_list_cache sample_bot (cache_key (str ''DOMAIN_NAME'') False)
     = [entry_spam, entry_ads, entry_spam_again]
   \<and> (\<exists>em.
         calls (snd (list_all_data sample_env sample_bot False (str ''DOMAIN_NAME'')))
           = [Paginate [8226 # str '' `ads.example`'',
                        8226 # str '' `spam.example`'',
                        8226 # str '' `spam.example` - junk'']
                       em 15 False])
   \<and> filter_list_cache sample_bot (cache_key (str ''DOMAIN_NAME'') True) = []
   \<and> (\<exists>em. calls (snd (list_all_data sample_env sample_bot True (str ''DOMAIN_NAME'')))
               = [SendEmbed em]
           \<and> embed_description em
               = Some (str ''Hmmm, seems like there'' @ [39] @ str ''s nothing here yet.''))"
proof -
  let ?f = "\<lambda>it. bullet @ str '' `'' @ item_content it @ str ''`''
                  @ (case item_comment it of
                       None \<Rightarrow> []
                     | Some s \<Rightarrow> if s = [] then [] else str '' - '' @ s)"
  have h1: "filter_list_cache sample_bot (cache_key (str ''DOMAIN_NAME'') False) \<noteq> []"
    by (simp add: sample_cache)
  have h2: "filter_list_cache sample_bot (cache_key (str ''DOMAIN_NAME'') True) = []"
    by (rule sample_cache_empty)
  from list_all_data_sorted [of sample_env sample_bot False "str ''DOMAIN_NAME''"] h1
  obtain lines em where
    c: "calls (snd (list_all_data sample_env sample_bot False (str ''DOMAIN_NAME'')))
          = [Paginate lines em 15 False]"
    and s: "sorted lines"
    and m: "mset lines = mset (map ?f [entry_spam, entry_ads, entry_spam_again])"
    unfolding sample_cache sample_calls append_Nil by blast
  from m s have "sort (map ?f [entry_spam, entry_ads, entry_spam_again]) = lines"
    by (rule properties_for_sort)
  moreover have "sort (map ?f [entry_spam, entry_ads, entry_spam_again])
      = [8226 # str '' `ads.example`'',
         8226 # str '' `spam.example`'',
         8226 # str '' `spam.example` - junk'']"
    by (simp add: entry_spam_def entry_ads_def entry_spam_again_def bullet_def str_def)
  ultimately have "lines = [8226 # str '' `ads.example`'',
         8226 # str '' `spam.example`'',
         8226 # str '' `spam.example` - junk'']"
    by simp
  with c have a: "\<exists>em.
         calls (snd (list_all_data sample_env sample_bot False (str ''DOMAIN_NAME'')))
           = [Paginate [8226 # str '' `ads.example`'',
                        8226 # str '' `spam.example`'',
                        8226 # str '' `spam.example` - junk'']
                       em 15 False]"
    by blast
  from list_all_data_sorted [of sample_env sample_bot True "str ''DOMAIN_NAME''"] h2
  have b: "\<exists>em. calls (snd (list_all_data sample_env sample_bot True (str ''DOMAIN_NAME'')))
               = [SendEmbed em]
           \<and> embed_description em
               = Some (str ''Hmmm, seems like there'' @ [39] @ str ''s nothing here yet.'')"
    unfolding sample_calls append_Nil by blast
  from sample_cache a h2 b show ?thesis by blast
qed

section \<open>Properties of the command error dispatcher\<close>

text \<open>
  C6. For a command-not-found error that carries neither a truthy handled marker nor
  the \<open>invoked_from_error_handler\<close> marker, the first action is the channel-silence
  attempt, made once; the tag fallback is not called when that attempt returns true
  or the channel is the verification channel, and is called exactly once otherwise.
\<close>

theorem on_command_error_not_found:
  assumes "error_class cmd = CommandNotFound"
    and "\<not> invoked_from_error_handler cmd"
    and "falsy (handled cmd)"
  shows "\<exists>rest. on_command_error d cmd = TrySilence # rest
           \<and> count_list rest TrySilence = 0
           \<and> count_list rest TryGetTag =
               (if try_silence d \<or> channel_id cmd = verification d then 0 else 1)"
  using assms by (simp add: on_command_error_def)

theorem on_command_error_not_found_witness:
  "error_class not_found = CommandNotFound
   \<and> \<not> invoked_from_error_handler not_found
   \<and> falsy (handled not_found)
   \<and> (\<exists>rest. on_command_error sample_dispatcher_env not_found = TrySilence # rest
         \<and> count_list rest TrySilence = 0
         \<and> count_list rest TryGetTag = 1)"
proof -
  have h1: "error_class not_found = CommandNotFound" by (simp add: not_found_def)
  have h2: "\<not> invoked_from_error_handler not_found" by (simp add: not_found_def)
  have h3: "falsy (handled not_found)" by (simp add: not_found_def falsy_def)
  have c: "\<not> (try_silence sample_dispatcher_env
              \<or> channel_id not_found = verification sample_dispatcher_env)"
    by (simp add: sample_dispatcher_env_def not_found_def)
  from on_command_error_not_found [OF h1 h2 h3, of sample_dispatcher_env] c h1 h2 h3
  show ?thesis by simp
qed

text \<open>
  C7. An error with a truthy handled marker makes the dispatcher take no action:
  nothing is sent and no handler is invoked.
\<close>

theorem on_command_error_handled:
  assumes "\<not> falsy (handled cmd)"
  shows "on_command_error d cmd = []"
  using assms by (simp add: on_command_error_def)

theorem on_command_error_handled_witness:
  "\<not> falsy (handled (not_found\<lparr>handled := Some (str ''foo'')\<rparr>))
   \<and> on_command_error sample_dispatcher_env (not_found\<lparr>handled := Some (str ''foo'')\<rparr>) = []"
proof -
  have h: "\<not> falsy (handled (not_found\<lparr>handled := Some (str ''foo'')\<rparr>))"
    by (simp add: falsy_def str_def)
  from on_command_error_handled [OF h] h show ?thesis by blast
qed

text \<open>
  C8. A command-not-found error with the \<open>invoked_from_error_handler\<close> marker makes the
  dispatcher take no action: no channel-silence attempt and no tag fallback.
\<close>

theorem on_command_error_invoked_from_handler:
  assumes "error_class cmd = CommandNotFound"
    and "invoked_from_error_handler cmd"
  shows "on_command_error d cmd = []"
  using assms by (simp add: on_command_error_def)

theorem on_command_error_invoked_from_handler_witness:
  "error_class (not_found\<lparr>invoked_from_error_handler := True\<rparr>) = CommandNotFound
   \<and> invoked_from_error_handler (not_found\<lparr>invoked_from_error_handler := True\<rparr>)
   \<and> on_command_error sample_dispatcher_env (not_found\<lparr>invoked_from_error_handler := True\<rparr>) = []"
proof -
  have h1: "error_class (not_found\<lparr>invoked_from_error_handler := True\<rparr>) = CommandNotFound"
    by (simp add: not_found_def)
  have h2: "invoked_from_error_handler (not_found\<lparr>invoked_from_error_handler := True\<rparr>)"
    by simp
  from on_command_error_invoked_from_handler [OF h1 h2] h1 h2 show ?thesis by blast
qed

end
